theory Spec2Isabelle
  imports Main "HOL-Library.AList"
begin

section \<open>Values and document nodes\<close>

text \<open>
  The code handles two kinds of loosely typed values: attribute values of document nodes
  (\<^verbatim>\<open>node.attrs.language\<close>) and the \<^verbatim>\<open>lang\<close> field of an external code node. Both are
  strings where the code is used as intended; a property that is not there reads as
  \<^verbatim>\<open>undefined\<close>.
\<close>

datatype js_value = Undefined | Null | Str string

text \<open>Conversion to a string, as an assignment to a DOM string property performs it.\<close>

fun ToString :: "js_value \<Rightarrow> string" where
  "ToString Undefined = ''undefined''"
| "ToString Null = ''null''"
| "ToString (Str s) = s"

text \<open>\<^verbatim>\<open>x || ""\<close>: every falsy value, the empty string among them, gives the empty string.\<close>

fun or_empty :: "js_value \<Rightarrow> string" where
  "or_empty (Str s) = (if s = [] then [] else s)"
| "or_empty _ = []"

text \<open>
  A node type of the schema is an object with a name; the code compares types by identity
  (\<^verbatim>\<open>updatedNode.type !== this.type\<close>) and by name (\<^verbatim>\<open>node.type.name === this.name\<close>).
  A schema holds one type object per name, so the type is its name here.
\<close>

datatype node_type = NodeType (name: string)

text \<open>
  A document node of the editor: its type, its attributes (an object, kept as an association
  list in property order), its children, and \<^verbatim>\<open>text\<close>, which only a text node defines.
\<close>

datatype pm_node =
  Node (node_type: node_type) (attrs: "(string \<times> js_value) list")
       (content: "pm_node list") (node_text: js_value)

text \<open>Reading a property of the attribute object: \<^verbatim>\<open>node.attrs[k]\<close>.\<close>

definition attr :: "pm_node \<Rightarrow> string \<Rightarrow> js_value" where
  "attr n k = (case map_of (attrs n) k of Some v \<Rightarrow> v | None \<Rightarrow> Undefined)"

text \<open>\<^verbatim>\<open>node.content.firstChild?.text\<close>: \<^verbatim>\<open>undefined\<close> when there is no child.\<close>

definition firstChild_text :: "pm_node \<Rightarrow> js_value" where
  "firstChild_text n = (case content n of [] \<Rightarrow> Undefined | c # _ \<Rightarrow> node_text c)"

text \<open>What the host and the markdown extension throw, as far as the code meets it.\<close>

datatype error = RangeError | NoOpenNode

text \<open>
  A text node holding a string, and \<^verbatim>\<open>schema.text(value)\<close>, the host's way to build one:
  the host has no text node for the empty string, and throws a range error when asked for it.
\<close>

definition text_node :: "string \<Rightarrow> pm_node" where
  "text_node s = Node (NodeType ''text'') [] [] (Str s)"

definition schema_text :: "string \<Rightarrow> error + pm_node" where
  "schema_text s = (if s = [] then Inl RangeError else Inr (text_node s))"

text \<open>Statements in sequence: an exception of one ends the sequence.\<close>

definition and_then :: "error + 'a \<Rightarrow> ('a \<Rightarrow> error + 'b) \<Rightarrow> error + 'b" where
  "and_then r f = (case r of Inl e \<Rightarrow> Inl e | Inr x \<Rightarrow> f x)"

definition is_text :: "pm_node \<Rightarrow> bool" where
  "is_text n = (case node_text n of Str _ \<Rightarrow> True | _ \<Rightarrow> False)"

text \<open>The external lightweight-markup node \<^verbatim>\<open>{type, value, lang}\<close>.\<close>

record md_node =
  md_type :: string
  md_value :: string
  md_lang :: js_value

section \<open>The code-block extension\<close>

text \<open>
  What the extension object holds: its name (inherited from the extension it extends, so a
  parameter here), and of its options the dictionary and the list of languages that
  \<^verbatim>\<open>this.options.lowlight.listLanguages()\<close> returns.
\<close>

record extension =
  ext_name :: string
  dictionary :: "(string \<times> string) list"
  listLanguages :: "string list"

text \<open>\<^verbatim>\<open>this.type\<close>: the node type registered under the extension's name.\<close>

definition this_type :: "extension \<Rightarrow> node_type" where
  "this_type ext = NodeType (ext_name ext)"

text \<open>The dictionary of \<^verbatim>\<open>addOptions\<close>.\<close>

definition default_dictionary :: "(string \<times> string) list" where
  "default_dictionary =
    [(''name'', ''CodeBlock''), (''copy'', ''Copy''), (''copied'', ''Copied!''),
     (''arduino'', ''Arduino''), (''bash'', ''Bash''), (''c'', ''C''), (''cpp'', ''C++''),
     (''csharp'', ''C#''), (''css'', ''CSS''), (''diff'', ''Diff''), (''go'', ''Go''),
     (''graphql'', ''GraphQL''), (''ini'', ''INI''), (''java'', ''Java''),
     (''javascript'', ''JavaScript''), (''json'', ''JSON''), (''kotlin'', ''Kotlin''),
     (''less'', ''Less''), (''lua'', ''Lua''), (''makefile'', ''Makefile''),
     (''markdown'', ''Markdown''), (''objectivec'', ''Objective-C''), (''perl'', ''Perl''),
     (''php'', ''PHP''), (''php-template'', ''PHP Template''), (''plaintext'', ''Text''),
     (''python'', ''Python''), (''python-repl'', ''Python Repl''), (''r'', ''R''),
     (''ruby'', ''Ruby''), (''rust'', ''Rust''), (''scss'', ''Scss''), (''shell'', ''Shell''),
     (''sql'', ''SQL''), (''swift'', ''Swift''), (''typescript'', ''TypeScript''),
     (''vbnet'', ''Visual Basic .NET''), (''wasm'', ''WebAssembly''), (''xml'', ''XML''),
     (''yaml'', ''YAML'')]"

subsection \<open>Markdown storage: parser and serializer\<close>

text \<open>
  Modelled from the spec: the parser state of the markdown extension (\<^verbatim>\<open>openNode\<close>,
  \<^verbatim>\<open>addText\<close>, \<^verbatim>\<open>closeNode\<close>) is not among the sources. The spec says that parsing an
  external code node "produces one editor document node carrying that language and text
  content", and that a node may have "no text content". The state is a stack of open nodes,
  innermost first; \<^verbatim>\<open>openNode\<close> opens a node of the given type and attributes,
  \<^verbatim>\<open>addText\<close> has the schema build a text node of the string and appends it to the
  innermost open node, \<^verbatim>\<open>closeNode\<close> finishes the innermost open node and appends it
  to the node around it. An operation that finds no open node to work on fails, and so does
  \<^verbatim>\<open>addText\<close> of the empty string, for which the schema has no text node.
\<close>

record parser_frame =
  frame_type :: node_type
  frame_attrs :: "(string \<times> js_value) list"
  frame_content :: "pm_node list"

type_synonym parser_state = "parser_frame list"

definition openNode :: "node_type \<Rightarrow> (string \<times> js_value) list \<Rightarrow> parser_state \<Rightarrow> error + parser_state" where
  "openNode t as st = Inr (\<lparr>frame_type = t, frame_attrs = as, frame_content = []\<rparr> # st)"

definition addText :: "string \<Rightarrow> parser_state \<Rightarrow> error + parser_state" where
  "addText v st =
    (case st of
       [] \<Rightarrow> Inl NoOpenNode
     | f # fs \<Rightarrow>
         and_then (schema_text v)
           (\<lambda>c. Inr (f\<lparr>frame_content := frame_content f @ [c]\<rparr> # fs)))"

definition closeNode :: "parser_state \<Rightarrow> error + parser_state" where
  "closeNode st =
    (case st of
       f # p # fs \<Rightarrow>
         Inr (p\<lparr>frame_content :=
                  frame_content p @ [Node (frame_type f) (frame_attrs f) (frame_content f) Undefined]\<rparr> # fs)
     | _ \<Rightarrow> Inl NoOpenNode)"

text \<open>The parser entry of \<^verbatim>\<open>addStorage\<close>: \<^verbatim>\<open>match\<close> and \<^verbatim>\<open>apply\<close>.\<close>

definition parser_match :: "md_node \<Rightarrow> bool" where
  "parser_match n = (md_type n = ''code'')"

definition parser_apply :: "parser_state \<Rightarrow> md_node \<Rightarrow> node_type \<Rightarrow> error + parser_state" where
  "parser_apply st n t =
    (let language = md_lang n; v = md_value n in
     and_then (and_then (openNode t [(''language'', language)] st) (addText v)) closeNode)"

text \<open>
  Modelled from the spec: the serializer state of the markdown extension (\<^verbatim>\<open>addNode\<close>) is
  not among the sources. The spec says that serialization "produces an external code node";
  the state is the list of external nodes produced so far, and \<^verbatim>\<open>addNode\<close> appends one.
\<close>

type_synonym serializer_state = "md_node list"

definition addNode :: "md_node \<Rightarrow> serializer_state \<Rightarrow> serializer_state" where
  "addNode n st = st @ [n]"

text \<open>The serializer entry of \<^verbatim>\<open>addStorage\<close>.\<close>

definition serializer_match :: "extension \<Rightarrow> pm_node \<Rightarrow> bool" where
  "serializer_match ext n = (name (node_type n) = ext_name ext)"

definition serializer_apply :: "serializer_state \<Rightarrow> pm_node \<Rightarrow> serializer_state" where
  "serializer_apply st n =
    addNode \<lparr>md_type = ''code'', md_value = or_empty (firstChild_text n),
             md_lang = attr n ''language''\<rparr> st"

text \<open>
  Modelled from the spec: the code of the markdown extension that runs the entries is not
  among the sources. An external node goes to the parser entry that matches it, in a state
  whose only open node is the document; what is parsed is the children of the document, or
  the exception that ended the entry. A document node goes to the serializer entry that
  matches it, in a state with no node yet. The result is \<^verbatim>\<open>None\<close> for a node that the
  entry does not match.
\<close>

definition parse_node :: "extension \<Rightarrow> md_node \<Rightarrow> (error + pm_node list) option" where
  "parse_node ext n =
    (if parser_match n then
       Some (and_then
               (parser_apply [\<lparr>frame_type = NodeType ''doc'', frame_attrs = [], frame_content = []\<rparr>]
                  n (this_type ext))
               (\<lambda>st. case st of [root] \<Rightarrow> Inr (frame_content root) | _ \<Rightarrow> Inl NoOpenNode))
     else None)"

definition serialize_node :: "extension \<Rightarrow> pm_node \<Rightarrow> md_node list option" where
  "serialize_node ext n = (if serializer_match ext n then Some (serializer_apply [] n) else None)"

subsection \<open>The language control\<close>

text \<open>
  The node view shows the language in a \<^verbatim>\<open><select>\<close> element. Its \<^verbatim>\<open>value\<close> property is
  not a stored string: the element is its list of options, each with a selectedness. Reading
  \<^verbatim>\<open>value\<close> gives the value of the first selected option, or the empty string when none
  is selected; writing it deselects every option and then selects the first option whose
  value is the string written, if there is one.
\<close>

record html_option =
  opt_value :: string
  textContent :: string
  selectedness :: bool

type_synonym html_select = "html_option list"

definition select_value :: "html_select \<Rightarrow> string" where
  "select_value sel = (case find selectedness sel of Some opt \<Rightarrow> opt_value opt | None \<Rightarrow> [])"

fun select_first :: "string \<Rightarrow> html_option list \<Rightarrow> html_option list" where
  "select_first v [] = []"
| "select_first v (opt # opts) =
     (if opt_value opt = v then opt\<lparr>selectedness := True\<rparr> # opts
      else opt # select_first v opts)"

definition set_select_value :: "string \<Rightarrow> html_select \<Rightarrow> html_select" where
  "set_select_value v sel = select_first v (map (\<lambda>opt. opt\<lparr>selectedness := False\<rparr>) sel)"

text \<open>
  \<^verbatim>\<open>language.append(option)\<close>: the option goes last; a drop-down in which no option is
  selected then selects its first option.
\<close>

definition append_option :: "html_option \<Rightarrow> html_select \<Rightarrow> html_select" where
  "append_option opt sel =
    (case sel @ [opt] of
       [] \<Rightarrow> []
     | o1 # rest \<Rightarrow>
         (if find selectedness (o1 # rest) = None then o1\<lparr>selectedness := True\<rparr> # rest
          else o1 # rest))"

text \<open>
  The loop that fills the control: one option per language, labelled by the dictionary, or by
  the name of the language when the dictionary has no entry for it. (The dictionary is an
  object: for a name that every object inherits, such as \<^verbatim>\<open>constructor\<close>, the label would
  be the inherited property; the highlighter has no language of such a name.)
\<close>

definition language_option :: "extension \<Rightarrow> string \<Rightarrow> html_option" where
  "language_option ext n =
    \<lparr>opt_value = n,
     textContent = (case map_of (dictionary ext) n of Some l \<Rightarrow> l | None \<Rightarrow> n),
     selectedness = False\<rparr>"

definition language_list :: "extension \<Rightarrow> html_select" where
  "language_list ext =
    foldl (\<lambda>sel n. append_option (language_option ext n) sel) [] (listLanguages ext)"

subsection \<open>The editor, as far as the extension uses it\<close>

text \<open>
  The document is seen through the host's \<^verbatim>\<open>nodeAt\<close>: the nodes it holds, by position.
  A selection is its ranges (the positions of \<^verbatim>\<open>$from\<close> and \<^verbatim>\<open>$to\<close> of each) and whether
  it selects a whole node. Structural equality of documents and of selections
  (\<^verbatim>\<open>doc.eq\<close>, \<^verbatim>\<open>selection.eq\<close>) is equality of these values.
\<close>

type_synonym document = "(int \<times> pm_node) list"

record selection =
  ranges :: "(int \<times> int) list"
  isNodeSelection :: bool

record editor_state =
  doc :: document
  selection :: selection

datatype step = SetNodeMarkup int "(string \<times> js_value) list"

text \<open>A transaction: the steps added to it and the document they lead to.\<close>

record transaction =
  tr_doc :: document
  steps :: "step list"

text \<open>\<^verbatim>\<open>state.tr\<close> starts a transaction on the document of the state.\<close>

definition tr :: "editor_state \<Rightarrow> transaction" where
  "tr st = \<lparr>tr_doc = doc st, steps = []\<rparr>"

text \<open>
  \<^verbatim>\<open>tr.setNodeMarkup(pos, undefined, attrs)\<close>, the host's operation: the node at the position
  keeps its type (none is given) and its content and takes the attributes given; with no
  node at the position the host throws a range error.
\<close>

definition setNodeMarkup :: "int \<Rightarrow> (string \<times> js_value) list \<Rightarrow> transaction \<Rightarrow> error + transaction" where
  "setNodeMarkup pos as t =
    (case map_of (tr_doc t) pos of
       None \<Rightarrow> Inl RangeError
     | Some n \<Rightarrow>
         Inr \<lparr>tr_doc = AList.update pos (Node (node_type n) as (content n) (node_text n)) (tr_doc t),
              steps = steps t @ [SetNodeMarkup pos as]\<rparr>)"

text \<open>
  The editor view: whether a composition is going on, the state, and the transactions
  dispatched to it so far. \<^verbatim>\<open>view.dispatch(tr)\<close> makes the transaction's document the
  document of the state.
\<close>

record editor_view =
  composing :: bool
  state :: editor_state
  dispatched :: "transaction list"

definition dispatch :: "transaction \<Rightarrow> editor_view \<Rightarrow> editor_view" where
  "dispatch t v = v\<lparr>state := (state v)\<lparr>doc := tr_doc t\<rparr>, dispatched := dispatched v @ [t]\<rparr>"

datatype command = InsertContent string

text \<open>
  The editor: \<^verbatim>\<open>isEditable\<close>, its view, the names that \<^verbatim>\<open>isActive\<close> answers true for
  at the current selection, and the commands run on it so far.
\<close>

record editor =
  isEditable :: bool
  view :: editor_view
  active :: "string list"
  commands :: "command list"

definition isActive :: "editor \<Rightarrow> string \<Rightarrow> bool" where
  "isActive e n = (find (\<lambda>a. a = n) (active e) \<noteq> None)"

definition insertContent :: "string \<Rightarrow> editor \<Rightarrow> editor" where
  "insertContent s e = e\<lparr>commands := commands e @ [InsertContent s]\<rparr>"

subsection \<open>Keyboard shortcut\<close>

text \<open>The handler bound to Tab; it returns whether it claims the key.\<close>

definition Tab :: "extension \<Rightarrow> editor \<Rightarrow> bool \<times> editor" where
  "Tab ext e =
    (if isActive e (ext_name ext) then (True, insertContent ''  '' e)
     else (False, e))"

subsection \<open>Node view\<close>

text \<open>
  \<^verbatim>\<open>addNodeView\<close> returns a function of \<^verbatim>\<open>{node, editor, getPos}\<close>. Its listeners and its
  \<^verbatim>\<open>update\<close> hook are closures over \<^verbatim>\<open>node\<close>, \<^verbatim>\<open>getPos\<close> and the select element
  \<^verbatim>\<open>language\<close>; the view below is what they share. No code assigns to \<^verbatim>\<open>node\<close>, so it
  stays the node the view was built for. \<^verbatim>\<open>getPos\<close> is \<^verbatim>\<open>None\<close> when it is not a
  function, and otherwise the position it returns.
\<close>

record node_view =
  node :: pm_node
  getPos :: "int option"
  language :: html_select

definition addNodeView :: "extension \<Rightarrow> pm_node \<Rightarrow> int option \<Rightarrow> node_view" where
  "addNodeView ext n gp =
    \<lparr>node = n, getPos = gp,
     language = set_select_value (ToString (attr n ''language'')) (language_list ext)\<rparr>"

text \<open>
  The listener of the control's change event. The editor is the one given to the view; the
  listener reads it when the event fires. An exception of the host leaves the listener.
\<close>

definition on_change :: "node_view \<Rightarrow> editor \<Rightarrow> error + (node_view \<times> editor)" where
  "on_change nv e =
    (if \<not> isEditable e then
       Inr (nv\<lparr>language := set_select_value (ToString (attr (node nv) ''language'')) (language nv)\<rparr>, e)
     else
       (case getPos nv of
          Some pos \<Rightarrow>
            (case setNodeMarkup pos
                    (AList.update ''language'' (Str (select_value (language nv))) (attrs (node nv)))
                    (tr (state (view e))) of
               Inl err \<Rightarrow> Inl err
             | Inr t \<Rightarrow> Inr (nv, e\<lparr>view := dispatch t (view e)\<rparr>))
        | None \<Rightarrow> Inr (nv, e)))"

text \<open>
  The user picks the option with value \<^verbatim>\<open>v\<close> in the control; the browser selects it and
  fires the change event.
\<close>

definition user_selects :: "string \<Rightarrow> node_view \<Rightarrow> editor \<Rightarrow> error + (node_view \<times> editor)" where
  "user_selects v nv e = on_change (nv\<lparr>language := set_select_value v (language nv)\<rparr>) e"

text \<open>
  The listener of the copy button's click: the strings given to
  \<^verbatim>\<open>navigator.clipboard.writeText\<close>, in order, are the clipboard here. The tooltip that
  follows the write, and its timer, are not part of the model.
\<close>

type_synonym clipboard = "string list"

definition writeText :: "string \<Rightarrow> clipboard \<Rightarrow> clipboard" where
  "writeText s clip = clip @ [s]"

definition on_copy_click :: "node_view \<Rightarrow> clipboard \<Rightarrow> clipboard" where
  "on_copy_click nv clip = writeText (or_empty (firstChild_text (node nv))) clip"

text \<open>
  The \<^verbatim>\<open>update\<close> hook of the view: the host calls it with the node that is now at the
  view's place; a result of true keeps the view for that node.
\<close>

definition nodeview_update :: "extension \<Rightarrow> node_view \<Rightarrow> pm_node \<Rightarrow> bool \<times> node_view" where
  "nodeview_update ext nv updatedNode =
    (if node_type updatedNode \<noteq> this_type ext then (False, nv)
     else (True, nv\<lparr>language := set_select_value (ToString (attr updatedNode ''language'')) (language nv)\<rparr>))"

section \<open>The float menu view\<close>

text \<open>
  Positions are numbers; \<^verbatim>\<open>Math.min()\<close> of no argument is \<^verbatim>\<open>Infinity\<close> and
  \<^verbatim>\<open>Math.max()\<close> of none is \<^verbatim>\<open>-Infinity\<close>.
\<close>

datatype jsnum = NegInf | Num int | PosInf

fun num_min :: "jsnum \<Rightarrow> jsnum \<Rightarrow> jsnum" where
  "num_min NegInf _ = NegInf"
| "num_min _ NegInf = NegInf"
| "num_min PosInf b = b"
| "num_min a PosInf = a"
| "num_min (Num a) (Num b) = Num (min a b)"

fun num_max :: "jsnum \<Rightarrow> jsnum \<Rightarrow> jsnum" where
  "num_max PosInf _ = PosInf"
| "num_max _ PosInf = PosInf"
| "num_max NegInf b = b"
| "num_max a NegInf = a"
| "num_max (Num a) (Num b) = Num (max a b)"

definition Math_min :: "int list \<Rightarrow> jsnum" where
  "Math_min xs = foldl num_min PosInf (map Num xs)"

definition Math_max :: "int list \<Rightarrow> jsnum" where
  "Math_max xs = foldl num_max NegInf (map Num xs)"

record range =
  range_from :: jsnum
  range_to :: jsnum

text \<open>
  The context object that \<^verbatim>\<open>_createProps\<close> builds. Its \<^verbatim>\<open>view\<close>, \<^verbatim>\<open>show\<close> and
  \<^verbatim>\<open>hide\<close> properties are the float menu view itself and two of its methods, which
  the record does not repeat.
\<close>

record props =
  props_range :: range
  props_editor :: editor

record element =
  classList :: "string list"

text \<open>
  An anchor rectangle is computed when the popover engine asks for it, from what the editor
  and the page are like then: the editor (the \<^verbatim>\<open>editor\<close> of the context is a reference to
  it), the bounding rectangle of the node that \<^verbatim>\<open>view.nodeDOM\<close> finds at a position, if
  it finds one, and the result of \<^verbatim>\<open>posToDOMRect\<close>. Rectangles are of any type \<^typ>\<open>'r\<close>.
\<close>

record 'r page =
  page_editor :: editor
  nodeDOM :: "jsnum \<Rightarrow> 'r option"
  posToDOMRect :: "jsnum \<Rightarrow> jsnum \<Rightarrow> 'r"

text \<open>
  The popover engine behind its interface: whether the popover is shown, and the function it
  asks for the anchor rectangle (\<^verbatim>\<open>null\<close> at first).
\<close>

record 'r popover =
  visible :: bool
  getReferenceClientRect :: "('r page \<Rightarrow> 'r) option"

text \<open>
  What an update can do to its surroundings, in the order it does it: evaluate the visibility
  predicate, invoke a callback of the caller (named by a string here) with the context and the
  element, and call the popover engine.
\<close>

datatype call =
  ShowPredicate props
| OnUpdate string props element
| PopoverHide
| PopoverSetProps
| PopoverShow

text \<open>
  The options of the view that its methods read: the visibility predicate \<^verbatim>\<open>show\<close>, the
  anchor function \<^verbatim>\<open>rect\<close> and the callback \<^verbatim>\<open>onUpdate\<close>, each of which may be missing.
\<close>

record 'r FloatMenuViewOptions =
  opt_show :: "(props \<Rightarrow> bool) option"
  opt_rect :: "(props \<Rightarrow> 'r page \<Rightarrow> 'r) option"
  onUpdate :: "string option"

text \<open>The view: its four fields, and the calls it has made so far.\<close>

record 'r FloatMenuView =
  fm_editor :: editor
  fm_popover :: "'r popover"
  fm_element :: element
  fm_options :: "'r FloatMenuViewOptions"
  calls :: "call list"

definition FloatMenuView_show :: "'r FloatMenuView \<Rightarrow> 'r FloatMenuView" where
  "FloatMenuView_show this =
    this\<lparr>fm_popover := (fm_popover this)\<lparr>visible := True\<rparr>, calls := calls this @ [PopoverShow]\<rparr>"

definition FloatMenuView_hide :: "'r FloatMenuView \<Rightarrow> 'r FloatMenuView" where
  "FloatMenuView_hide this =
    this\<lparr>fm_popover := (fm_popover this)\<lparr>visible := False\<rparr>, calls := calls this @ [PopoverHide]\<rparr>"

definition createProps :: "'r FloatMenuView \<Rightarrow> props" where
  "createProps this =
    (let rs = ranges (selection (state (view (fm_editor this))));
         from = Math_min (map fst rs);
         to = Math_max (map snd rs)
     in \<lparr>props_range = \<lparr>range_from = from, range_to = to\<rparr>, props_editor = fm_editor this\<rparr>)"

text \<open>The anchor function used when the options give none.\<close>

definition default_rect :: "props \<Rightarrow> 'r page \<Rightarrow> 'r" where
  "default_rect p pg =
    (let r = props_range p in
     if isNodeSelection (selection (state (view (page_editor pg)))) then
       (case nodeDOM pg (range_from r) of
          Some b \<Rightarrow> b
        | None \<Rightarrow> posToDOMRect pg (range_from r) (range_to r))
     else posToDOMRect pg (range_from r) (range_to r))"

definition createRect :: "'r FloatMenuView \<Rightarrow> props \<Rightarrow> 'r page \<Rightarrow> 'r" where
  "createRect this = (case opt_rect (fm_options this) of Some f \<Rightarrow> f | None \<Rightarrow> default_rect)"

text \<open>\<^verbatim>\<open>this.options.show?.(props)\<close>: without a predicate the result is \<^verbatim>\<open>undefined\<close>, which is falsy.\<close>

definition call_show :: "'r FloatMenuView \<Rightarrow> props \<Rightarrow> bool \<times> 'r FloatMenuView" where
  "call_show this p =
    (case opt_show (fm_options this) of
       None \<Rightarrow> (False, this)
     | Some f \<Rightarrow> (f p, this\<lparr>calls := calls this @ [ShowPredicate p]\<rparr>))"

definition call_onUpdate :: "'r FloatMenuView \<Rightarrow> props \<Rightarrow> 'r FloatMenuView" where
  "call_onUpdate this p =
    (case onUpdate (fm_options this) of
       None \<Rightarrow> this
     | Some cb \<Rightarrow> this\<lparr>calls := calls this @ [OnUpdate cb p (fm_element this)]\<rparr>)"

definition setProps :: "('r page \<Rightarrow> 'r) \<Rightarrow> 'r FloatMenuView \<Rightarrow> 'r FloatMenuView" where
  "setProps f this =
    this\<lparr>fm_popover := (fm_popover this)\<lparr>getReferenceClientRect := Some f\<rparr>,
         calls := calls this @ [PopoverSetProps]\<rparr>"

text \<open>
  \<^verbatim>\<open>update(view, oldState?)\<close>; the old state is \<^verbatim>\<open>None\<close> when the caller gives none.
  The anchor is handed to the engine as a function, which the engine calls when it places
  the popover.
\<close>

definition FloatMenuView_update :: "'r FloatMenuView \<Rightarrow> editor_view \<Rightarrow> editor_state option \<Rightarrow> 'r FloatMenuView" where
  "FloatMenuView_update this v oldState =
    (let st = state v in
     if composing v \<or>
        (case oldState of
           None \<Rightarrow> False
         | Some old \<Rightarrow> doc old = doc st \<and> selection old = selection st)
     then this
     else
       let p = createProps this;
           (shown, this1) = call_show this p
       in if \<not> shown then FloatMenuView_hide this1
          else FloatMenuView_show (setProps (createRect this p) (call_onUpdate this1 p)))"

section \<open>Example values\<close>

text \<open>
  The extension as \<^verbatim>\<open>addOptions\<close> configures it. Its name and its languages come from the
  libraries it builds on: the name is that of the framework's code-block node, and the
  languages are the language keys of the dictionary, the grammars of the highlighter's
  \<^verbatim>\<open>common\<close> set.
\<close>

definition CodeBlock :: extension where
  "CodeBlock =
    \<lparr>ext_name = ''codeBlock'', dictionary = default_dictionary,
     listLanguages = map fst (drop 3 default_dictionary)\<rparr>"

text \<open>A code block with a language and, unless the text is empty, one text child.\<close>

definition code_block :: "string \<Rightarrow> string \<Rightarrow> pm_node" where
  "code_block l t =
    Node (NodeType ''codeBlock'') [(''language'', Str l)]
         (if t = [] then [] else [text_node t]) Undefined"


text \<open>An editor with the given document and a text selection of one range.\<close>

definition editor_with :: "bool \<Rightarrow> document \<Rightarrow> editor" where
  "editor_with editable d =
    \<lparr>isEditable = editable,
     view = \<lparr>composing = False,
             state = \<lparr>doc = d, selection = \<lparr>ranges = [(1, 4)], isNodeSelection = False\<rparr>\<rparr>,
             dispatched = []\<rparr>,
     active = [''codeBlock''], commands = []\<rparr>"

text \<open>A float menu over that editor, hidden, with the given predicate and an update callback.\<close>

definition menu_with :: "(props \<Rightarrow> bool) option \<Rightarrow> editor \<Rightarrow> unit FloatMenuView" where
  "menu_with pred e =
    \<lparr>fm_editor = e,
     fm_popover = \<lparr>visible = False, getReferenceClientRect = None\<rparr>,
     fm_element = \<lparr>classList = [''tiptap-fm'']\<rparr>,
     fm_options = \<lparr>opt_show = pred, opt_rect = None, onUpdate = Some ''onUpdate''\<rparr>,
     calls = []\<rparr>"

text \<open>
  Rectangles that say where they come from: the bounding rectangle of the node at a position,
  and the rectangle of the text between two positions. A page on which every position has a
  node, seen with the given editor.
\<close>

datatype rect = NodeRect jsnum | RangeRect jsnum jsnum

definition page_with :: "editor \<Rightarrow> rect page" where
  "page_with e =
    \<lparr>page_editor = e, nodeDOM = (\<lambda>pos. Some (NodeRect pos)), posToDOMRect = RangeRect\<rparr>"

text \<open>An editor whose selection has the given ranges, and is a node selection or not.\<close>

definition editor_selecting :: "(int \<times> int) list \<Rightarrow> bool \<Rightarrow> editor" where
  "editor_selecting rs nodesel =
    \<lparr>isEditable = True,
     view = \<lparr>composing = False,
             state = \<lparr>doc = [], selection = \<lparr>ranges = rs, isNodeSelection = nodesel\<rparr>\<rparr>,
             dispatched = []\<rparr>,
     active = [], commands = []\<rparr>"

text \<open>A float menu over an editor, hidden, with the given predicate and anchor function.\<close>

definition menu_of :: "(props \<Rightarrow> bool) option \<Rightarrow> (props \<Rightarrow> rect page \<Rightarrow> rect) option \<Rightarrow> editor \<Rightarrow> rect FloatMenuView" where
  "menu_of pred anchor e =
    \<lparr>fm_editor = e,
     fm_popover = \<lparr>visible = False, getReferenceClientRect = None\<rparr>,
     fm_element = \<lparr>classList = [''tiptap-fm'']\<rparr>,
     fm_options = \<lparr>opt_show = pred, opt_rect = anchor, onUpdate = Some ''onUpdate''\<rparr>,
     calls = []\<rparr>"

section \<open>Properties of the code-block extension\<close>

subsection \<open>The select element\<close>

lemma map_opt_value_select_first: "map opt_value (select_first v sel) = map opt_value sel"
  by (induction sel) auto

lemma map_opt_value_set_select_value: "map opt_value (set_select_value v sel) = map opt_value sel"
  by (simp add: set_select_value_def map_opt_value_select_first comp_def)

lemma find_select_first_member:
  "list_all (\<lambda>opt. \<not> selectedness opt) sel \<Longrightarrow> v \<in> set (map opt_value sel) \<Longrightarrow>
   \<exists>opt. find selectedness (select_first v sel) = Some opt \<and> opt_value opt = v"
  by (induction sel) auto

lemma find_select_first_absent:
  "list_all (\<lambda>opt. \<not> selectedness opt) sel \<Longrightarrow> v \<notin> set (map opt_value sel) \<Longrightarrow>
   find selectedness (select_first v sel) = None"
  by (induction sel) auto

text \<open>Writing the value of an option selects it; writing any other string selects nothing.\<close>

lemma select_value_set_member:
  "v \<in> set (map opt_value sel) \<Longrightarrow> select_value (set_select_value v sel) = v"
  using find_select_first_member [of "map (\<lambda>opt. opt\<lparr>selectedness := False\<rparr>) sel" v]
  by (auto simp: select_value_def set_select_value_def list_all_iff comp_def)

lemma select_value_set_absent:
  "v \<notin> set (map opt_value sel) \<Longrightarrow> select_value (set_select_value v sel) = []"
  using find_select_first_absent [of "map (\<lambda>opt. opt\<lparr>selectedness := False\<rparr>) sel" v]
  by (auto simp: select_value_def set_select_value_def list_all_iff comp_def)

lemma map_opt_value_append_option:
  "map opt_value (append_option opt sel) = map opt_value sel @ [opt_value opt]"
  by (cases sel) (auto simp: append_option_def)

lemma map_opt_value_fold:
  "map opt_value (foldl (\<lambda>sel n. append_option (language_option ext n) sel) acc ns)
    = map opt_value acc @ ns"
  by (induction ns arbitrary: acc) (auto simp: map_opt_value_append_option language_option_def)

text \<open>The control offers the languages of the highlighter, in its order, and no other.\<close>

lemma map_opt_value_language_list: "map opt_value (language_list ext) = listLanguages ext"
  by (simp add: language_list_def map_opt_value_fold)

lemma addNodeView_language_values:
  "map opt_value (language (addNodeView ext n gp)) = listLanguages ext"
  by (simp add: addNodeView_def map_opt_value_set_select_value map_opt_value_language_list)

subsection \<open>The example values\<close>

lemma ext_name_CodeBlock: "ext_name CodeBlock = ''codeBlock''"
  by (simp add: CodeBlock_def)

lemma listLanguages_CodeBlock:
  "listLanguages CodeBlock =
    [''arduino'', ''bash'', ''c'', ''cpp'', ''csharp'', ''css'', ''diff'', ''go'', ''graphql'',
     ''ini'', ''java'', ''javascript'', ''json'', ''kotlin'', ''less'', ''lua'', ''makefile'',
     ''markdown'', ''objectivec'', ''perl'', ''php'', ''php-template'', ''plaintext'', ''python'',
     ''python-repl'', ''r'', ''ruby'', ''rust'', ''scss'', ''shell'', ''sql'', ''swift'',
     ''typescript'', ''vbnet'', ''wasm'', ''xml'', ''yaml'']"
  by (simp add: CodeBlock_def default_dictionary_def)

lemma attr_code_block: "attr (code_block l t) ''language'' = Str l"
  by (simp add: code_block_def attr_def)

lemma node_type_code_block: "node_type (code_block l t) = this_type CodeBlock"
  by (simp add: code_block_def this_type_def ext_name_CodeBlock)

subsection \<open>Parsing and serializing\<close>

text \<open>
  For a text that is not empty the round trip holds: parsing the external code node with
  language tag \<open>l\<close> and text \<open>t\<close> gives one document node, and serializing that node gives
  back the external node.
\<close>

lemma parse_serialize_nonempty:
  assumes "t \<noteq> []"
  shows "parse_node ext \<lparr>md_type = ''code'', md_value = t, md_lang = Str l\<rparr>
     = Some (Inr [Node (this_type ext) [(''language'', Str l)] [text_node t] Undefined])
   \<and> serialize_node ext (Node (this_type ext) [(''language'', Str l)] [text_node t] Undefined)
     = Some [\<lparr>md_type = ''code'', md_value = t, md_lang = Str l\<rparr>]"
  using assms
  by (simp add: parse_node_def parser_match_def parser_apply_def openNode_def addText_def
      closeNode_def schema_text_def and_then_def serialize_node_def serializer_match_def
      serializer_apply_def addNode_def firstChild_text_def text_node_def attr_def this_type_def)


text \<open>
  C9: serializing a document node of the code-block type produces one external node of type
  \<^verbatim>\<open>code\<close> whose \<open>lang\<close> is the node's language attribute and whose value is the text of
  the node's first child when that child is a text node, and the empty string otherwise, in
  particular when the node has no child. The children of a code block are text nodes; for
  such a node the value is the text of its first text child, or the empty string when it has
  none.
\<close>

theorem serializer_output:
  assumes "node_type n = this_type ext"
  shows "serializer_match ext n
    \<and> (\<exists>m. serialize_node ext n = Some [m] \<and> md_type m = ''code''
          \<and> md_lang m = attr n ''language''
          \<and> md_value m = (case content n of
                             [] \<Rightarrow> []
                           | c # _ \<Rightarrow> (case node_text c of Str s \<Rightarrow> s | _ \<Rightarrow> []))
          \<and> (list_all is_text (content n) \<longrightarrow>
               md_value m = (case find is_text (content n) of
                               Some c \<Rightarrow> ToString (node_text c)
                             | None \<Rightarrow> [])))"
proof -
  let ?m = "\<lparr>md_type = ''code'', md_value = or_empty (firstChild_text n),
             md_lang = attr n ''language''\<rparr>"
  have m: "serializer_match ext n"
    using assms by (simp add: serializer_match_def this_type_def)
  have s: "serialize_node ext n = Some [?m]"
    using m by (simp add: serialize_node_def serializer_apply_def addNode_def)
  have v: "or_empty (firstChild_text n)
      = (case content n of [] \<Rightarrow> [] | c # _ \<Rightarrow> (case node_text c of Str s \<Rightarrow> s | _ \<Rightarrow> []))"
    by (auto simp: firstChild_text_def split: list.splits js_value.splits)
  have t: "list_all is_text (content n) \<Longrightarrow>
      or_empty (firstChild_text n)
        = (case find is_text (content n) of Some c \<Rightarrow> ToString (node_text c) | None \<Rightarrow> [])"
    by (cases "content n") (auto simp: firstChild_text_def is_text_def split: js_value.splits)
  show ?thesis
    using m s v t by simp
qed

theorem serializer_output_witness:
  "node_type (code_block ''python'' ''x=1'') = this_type CodeBlock
   \<and> (\<exists>m. serialize_node CodeBlock (code_block ''python'' ''x=1'') = Some [m]
          \<and> md_type m = ''code'' \<and> md_lang m = Str ''python'' \<and> md_value m = ''x=1'')"
  using serializer_output [of "code_block ''python'' ''x=1''" CodeBlock]
  by (simp add: code_block_def CodeBlock_def this_type_def attr_def text_node_def is_text_def)

subsection \<open>Keyboard shortcut\<close>

text \<open>
  C7: when the code-block node is active, the Tab handler runs the editor's insert command
  with a string of exactly two space characters, once, and returns true; when the node is
  not active it returns false and leaves the editor as it is.
\<close>

theorem Tab_shortcut:
  "(isActive e (ext_name ext) \<longrightarrow>
      Tab ext e = (True, e\<lparr>commands := commands e @ [InsertContent [CHR '' '', CHR '' '']]\<rparr>))
   \<and> (\<not> isActive e (ext_name ext) \<longrightarrow> Tab ext e = (False, e))"
  by (simp add: Tab_def insertContent_def)

theorem Tab_shortcut_witness:
  "isActive (editor_with True []) (ext_name CodeBlock)
   \<and> Tab CodeBlock (editor_with True [])
      = (True, (editor_with True [])\<lparr>commands := [InsertContent [CHR '' '', CHR '' '']]\<rparr>)
   \<and> \<not> isActive ((editor_with True [])\<lparr>active := [''paragraph'']\<rparr>) (ext_name CodeBlock)
   \<and> Tab CodeBlock ((editor_with True [])\<lparr>active := [''paragraph'']\<rparr>)
      = (False, (editor_with True [])\<lparr>active := [''paragraph'']\<rparr>)"
  using Tab_shortcut [where ext = CodeBlock and e = "editor_with True []"]
    Tab_shortcut [where ext = CodeBlock and e = "(editor_with True [])\<lparr>active := [''paragraph'']\<rparr>"]
  by (simp add: isActive_def editor_with_def ext_name_CodeBlock)

subsection \<open>The update hook of the node view\<close>

text \<open>
  C2, as the code has it: the update hook returns false exactly when the type of the updated
  node differs from the code-block type, and then leaves the view as it is; for an updated
  node of the code-block type it writes the node's language attribute to the value of the
  select control, changes nothing else, and returns true. After that the value of the
  control is the node's language attribute when that language is the value of one of the
  control's options, and the empty string, with no option selected, when it is not.
\<close>

theorem nodeview_update_sync:
  "fst (nodeview_update ext nv n) = (node_type n = this_type ext)
   \<and> (node_type n \<noteq> this_type ext \<longrightarrow> snd (nodeview_update ext nv n) = nv)
   \<and> (node_type n = this_type ext \<longrightarrow>
        snd (nodeview_update ext nv n)
          = nv\<lparr>language := set_select_value (ToString (attr n ''language'')) (language nv)\<rparr>
        \<and> select_value (language (snd (nodeview_update ext nv n)))
          = (if ToString (attr n ''language'') \<in> set (map opt_value (language nv))
             then ToString (attr n ''language'') else []))"
  by (simp add: nodeview_update_def select_value_set_member select_value_set_absent)

theorem nodeview_update_sync_witness:
  "node_type (code_block ''python'' ''a'') = this_type CodeBlock
   \<and> fst (nodeview_update CodeBlock (addNodeView CodeBlock (code_block ''plaintext'' ''a'') (Some 0))
          (code_block ''python'' ''a''))
   \<and> select_value (language (snd (nodeview_update CodeBlock
          (addNodeView CodeBlock (code_block ''plaintext'' ''a'') (Some 0))
          (code_block ''python'' ''a'')))) = ''python''"
proof -
  have m: "''python'' \<in> set (map opt_value
      (language (addNodeView CodeBlock (code_block ''plaintext'' ''a'') (Some 0))))"
    by (simp add: addNodeView_language_values listLanguages_CodeBlock)
  show ?thesis
    using nodeview_update_sync [where ext = CodeBlock and n = "code_block ''python'' ''a''"
        and nv = "addNodeView CodeBlock (code_block ''plaintext'' ''a'') (Some 0)"] m
    by (auto simp: attr_code_block node_type_code_block)
qed

text \<open>
  C2, as the claim states it, fails for a language that the control does not list. The view
  of a plain-text block is updated with a block of the same type whose language is
  \<^verbatim>\<open>dockerfile\<close>, which is not among the languages of the highlighter's common set: the
  hook accepts the update, and the value of the control is then not the node's language.
\<close>

theorem nodeview_update_unlisted_language_counterexample:
  "fst (nodeview_update CodeBlock (addNodeView CodeBlock (code_block ''plaintext'' ''a'') (Some 0))
          (code_block ''dockerfile'' ''a''))
   \<and> select_value (language (snd (nodeview_update CodeBlock
          (addNodeView CodeBlock (code_block ''plaintext'' ''a'') (Some 0))
          (code_block ''dockerfile'' ''a''))))
       \<noteq> ToString (attr (code_block ''dockerfile'' ''a'') ''language'')"
proof -
  have "''dockerfile'' \<notin> set (map opt_value
      (language (addNodeView CodeBlock (code_block ''plaintext'' ''a'') (Some 0))))"
    by (simp add: addNodeView_language_values listLanguages_CodeBlock)
  then have "select_value (set_select_value ''dockerfile''
      (language (addNodeView CodeBlock (code_block ''plaintext'' ''a'') (Some 0)))) = []"
    by (rule select_value_set_absent)
  then show ?thesis
    by (simp add: nodeview_update_def node_type_code_block attr_code_block)
qed

subsection \<open>The listeners of the node view\<close>

text \<open>
  C5, evaluated where it fails. A view is built for a block whose language is
  \<^verbatim>\<open>javascript\<close>; the host then updates it in place with the block changed to
  \<^verbatim>\<open>python\<close>, which the hook accepts. In an editor that is not editable the user picks
  \<^verbatim>\<open>go\<close>: the listener dispatches nothing and leaves the editor as it is, but the value it
  writes back to the control is \<^verbatim>\<open>javascript\<close>, the language of the node the view was built
  for, while the language of the node now in the document is \<^verbatim>\<open>python\<close>.
\<close>

theorem readonly_change_resets_to_first_node:
  "fst (nodeview_update CodeBlock (addNodeView CodeBlock (code_block ''javascript'' ''a'') (Some 0))
          (code_block ''python'' ''a''))
   \<and> \<not> isEditable (editor_with False [(0, code_block ''python'' ''a'')])
   \<and> map_sum id snd (user_selects ''go'' (snd (nodeview_update CodeBlock
          (addNodeView CodeBlock (code_block ''javascript'' ''a'') (Some 0))
          (code_block ''python'' ''a''))) (editor_with False [(0, code_block ''python'' ''a'')]))
        = Inr (editor_with False [(0, code_block ''python'' ''a'')])
   \<and> map_sum id (\<lambda>r. select_value (language (fst r))) (user_selects ''go'' (snd (nodeview_update CodeBlock
          (addNodeView CodeBlock (code_block ''javascript'' ''a'') (Some 0))
          (code_block ''python'' ''a''))) (editor_with False [(0, code_block ''python'' ''a'')]))
        = Inr ''javascript''
   \<and> attr (code_block ''python'' ''a'') ''language'' = Str ''python''"
proof -
  let ?nv0 = "addNodeView CodeBlock (code_block ''javascript'' ''a'') (Some 0)"
  let ?nv1 = "snd (nodeview_update CodeBlock ?nv0 (code_block ''python'' ''a''))"
  have n: "node ?nv1 = code_block ''javascript'' ''a''"
    by (simp add: nodeview_update_def addNodeView_def node_type_code_block)
  have vals: "map opt_value (set_select_value ''go'' (language ?nv1)) = listLanguages CodeBlock"
    by (simp add: nodeview_update_def map_opt_value_set_select_value addNodeView_language_values
        node_type_code_block)
  have "''javascript'' \<in> set (map opt_value (set_select_value ''go'' (language ?nv1)))"
    unfolding vals by (simp add: listLanguages_CodeBlock)
  then have "select_value (set_select_value ''javascript'' (set_select_value ''go'' (language ?nv1)))
      = ''javascript''"
    by (rule select_value_set_member)
  then show ?thesis
    using n by (simp add: user_selects_def on_change_def editor_with_def nodeview_update_def
        node_type_code_block attr_code_block)
qed

text \<open>
  What the listener does in an editable editor, for a view whose \<^verbatim>\<open>getPos\<close> gives the
  position of a node of the document, when the user picks a language that the control
  offers: it dispatches exactly one transaction; after it the node at that position has the
  language picked, its type, its content and its text are unchanged, and every other node of
  the document is unchanged. Its attributes other than the language are those of the node
  the view was built for.
\<close>

lemma change_editable_dispatches_once:
  assumes "isEditable e" and "getPos nv = Some pos"
    and "map_of (doc (state (view e))) pos = Some n"
    and "v \<in> set (map opt_value (language nv))"
  shows "\<exists>nv' e' n'. user_selects v nv e = Inr (nv', e')
     \<and> length (dispatched (view e')) = length (dispatched (view e)) + 1
     \<and> map_of (doc (state (view e'))) pos = Some n'
     \<and> attr n' ''language'' = Str v
     \<and> node_type n' = node_type n \<and> content n' = content n \<and> node_text n' = node_text n
     \<and> (\<forall>k. k \<noteq> ''language'' \<longrightarrow> attr n' k = attr (node nv) k)
     \<and> (\<forall>q. q \<noteq> pos \<longrightarrow> map_of (doc (state (view e'))) q = map_of (doc (state (view e))) q)"
proof -
  let ?sel = "set_select_value v (language nv)"
  let ?as = "AList.update ''language'' (Str (select_value ?sel)) (attrs (node nv))"
  let ?n' = "Node (node_type n) ?as (content n) (node_text n)"
  let ?t = "\<lparr>tr_doc = AList.update pos ?n' (doc (state (view e))), steps = [SetNodeMarkup pos ?as]\<rparr>"
  let ?e' = "e\<lparr>view := dispatch ?t (view e)\<rparr>"
  have sv: "select_value ?sel = v"
    using assms(4) by (rule select_value_set_member)
  have m: "setNodeMarkup pos ?as (tr (state (view e))) = Inr ?t"
    using assms(3) by (simp add: setNodeMarkup_def tr_def)
  have r: "user_selects v nv e = Inr (nv\<lparr>language := ?sel\<rparr>, ?e')"
    using assms(1,2) m by (simp add: user_selects_def on_change_def)
  have l: "length (dispatched (view ?e')) = length (dispatched (view e)) + 1"
    by (simp add: dispatch_def)
  have dp: "map_of (doc (state (view ?e'))) pos = Some ?n'"
    by (simp add: dispatch_def update_conv')
  have dq: "\<forall>q. q \<noteq> pos \<longrightarrow> map_of (doc (state (view ?e'))) q = map_of (doc (state (view e))) q"
    by (simp add: dispatch_def update_conv')
  have a: "attr ?n' ''language'' = Str v"
    by (simp add: attr_def update_conv' sv)
  have s: "node_type ?n' = node_type n \<and> content ?n' = content n \<and> node_text ?n' = node_text n"
    by simp
  have o: "\<forall>k. k \<noteq> ''language'' \<longrightarrow> attr ?n' k = attr (node nv) k"
    by (simp add: attr_def update_conv')
  show ?thesis
    using r l dp a s o dq by blast
qed


text \<open>
  C8, evaluated where it fails. A view is built for an empty code block; the user types
  \<^verbatim>\<open>x=1\<close>, and the host updates the view in place with the block that holds that text,
  which the hook accepts. A click on the copy button then writes the empty string to the
  clipboard, the text of the node the view was built for, while the text of the node now in
  the document is \<^verbatim>\<open>x=1\<close>.
\<close>

theorem copy_after_update_writes_first_text:
  "fst (nodeview_update CodeBlock (addNodeView CodeBlock (code_block ''plaintext'' []) (Some 0))
          (code_block ''plaintext'' ''x=1''))
   \<and> on_copy_click (snd (nodeview_update CodeBlock
          (addNodeView CodeBlock (code_block ''plaintext'' []) (Some 0))
          (code_block ''plaintext'' ''x=1''))) [] = [[]]
   \<and> or_empty (firstChild_text (code_block ''plaintext'' ''x=1'')) = ''x=1''"
  by (simp add: nodeview_update_def on_copy_click_def writeText_def addNodeView_def
      code_block_def this_type_def ext_name_CodeBlock firstChild_text_def text_node_def)

text \<open>
  Before any update the click writes the text of the view's node: for a view built for a
  block with the text \<^verbatim>\<open>x=1\<close>, exactly that.
\<close>

lemma copy_click_of_new_view:
  "on_copy_click (addNodeView ext n gp) clip = clip @ [or_empty (firstChild_text n)]"
  by (simp add: on_copy_click_def writeText_def addNodeView_def)

lemma copy_click_example:
  "on_copy_click (addNodeView CodeBlock (code_block ''plaintext'' ''x=1'') (Some 0)) [] = [''x=1'']"
  by (simp add: copy_click_of_new_view code_block_def firstChild_text_def text_node_def)

section \<open>Properties of the float menu view\<close>

subsection \<open>The context and the anchor\<close>

text \<open>
  \<^verbatim>\<open>Math.min\<close> and \<^verbatim>\<open>Math.max\<close> of a list of positions are its least and its greatest
  position, and the two infinities when the list is empty.
\<close>

lemma foldl_num_min_Num:
  "foldl num_min (Num a) (map Num xs) = Num (Min (insert a (set xs)))"
proof (induction xs arbitrary: a)
  case Nil
  show ?case by simp
next
  case (Cons x xs)
  have "Min (insert (min a x) (set xs)) = Min (insert a (insert x (set xs)))"
    by (cases "set xs = {}") (simp_all add: min.assoc)
  with Cons show ?case by simp
qed

lemma foldl_num_max_Num:
  "foldl num_max (Num a) (map Num xs) = Num (Max (insert a (set xs)))"
proof (induction xs arbitrary: a)
  case Nil
  show ?case by simp
next
  case (Cons x xs)
  have "Max (insert (max a x) (set xs)) = Max (insert a (insert x (set xs)))"
    by (cases "set xs = {}") (simp_all add: max.assoc)
  with Cons show ?case by simp
qed

lemma Math_min_eq: "Math_min xs = (if xs = [] then PosInf else Num (Min (set xs)))"
  by (cases xs) (simp_all add: Math_min_def foldl_num_min_Num)

lemma Math_max_eq: "Math_max xs = (if xs = [] then NegInf else Num (Max (set xs)))"
  by (cases xs) (simp_all add: Math_max_def foldl_num_max_Num)

text \<open>
  The context of a view: the range from the least \<^verbatim>\<open>$from\<close> to the greatest \<^verbatim>\<open>$to\<close> of
  the ranges of the editor's selection, and the editor.
\<close>

lemma createProps_eq:
  "createProps this =
    (let rs = ranges (selection (state (view (fm_editor this)))) in
     \<lparr>props_range =
        \<lparr>range_from = (if rs = [] then PosInf else Num (Min (set (map fst rs)))),
         range_to = (if rs = [] then NegInf else Num (Max (set (map snd rs))))\<rparr>,
      props_editor = fm_editor this\<rparr>)"
  by (simp add: createProps_def Math_min_eq Math_max_eq Let_def)

text \<open>
  The anchor of a view for a context: the anchor function of the options when there is one;
  otherwise, for a node selection, the bounding rectangle of the node at the start of the
  range when the page has a node there, and in every other case the rectangle of the text
  from the start to the end of the range.
\<close>

lemma createRect_eq:
  "createRect this p pg =
    (case opt_rect (fm_options this) of
       Some g \<Rightarrow> g p pg
     | None \<Rightarrow>
         (if isNodeSelection (selection (state (view (page_editor pg)))) then
            (case nodeDOM pg (range_from (props_range p)) of
               Some b \<Rightarrow> b
             | None \<Rightarrow> posToDOMRect pg (range_from (props_range p)) (range_to (props_range p)))
          else posToDOMRect pg (range_from (props_range p)) (range_to (props_range p))))"
  by (simp add: createRect_def default_rect_def Let_def split: option.splits)

text \<open>
  C3: an update is a no-op whenever the editor view is composing, and whenever an old state
  is given whose document and selection both equal those of the view's state. The view
  after it is the view before it: the popover is as visible as it was, its anchor function
  is the same, and no call is made, neither of the predicate nor of a callback nor of the
  popover engine.
\<close>

theorem update_skip:
  assumes "composing v \<or>
      (\<exists>old. oldState = Some old \<and> doc old = doc (state v) \<and> selection old = selection (state v))"
  shows "FloatMenuView_update this v oldState = this"
  using assms by (auto simp: FloatMenuView_update_def)

theorem update_skip_witness:
  "composing ((view (editor_with True []))\<lparr>composing := True\<rparr>)
   \<and> FloatMenuView_update (menu_with (Some (\<lambda>p. True)) (editor_with True []))
      ((view (editor_with True []))\<lparr>composing := True\<rparr>) None
     = menu_with (Some (\<lambda>p. True)) (editor_with True [])
   \<and> FloatMenuView_update (menu_with (Some (\<lambda>p. True)) (editor_with True []))
      (view (editor_with True [])) (Some (state (view (editor_with True []))))
     = menu_with (Some (\<lambda>p. True)) (editor_with True [])"
  using update_skip [where v = "(view (editor_with True []))\<lparr>composing := True\<rparr>"
      and oldState = None and this = "menu_with (Some (\<lambda>p. True)) (editor_with True [])"]
    update_skip [where v = "view (editor_with True [])"
      and oldState = "Some (state (view (editor_with True [])))"
      and this = "menu_with (Some (\<lambda>p. True)) (editor_with True [])"]
  by simp

lemma createRect_fun:
  "createRect this p =
    (\<lambda>pg. case opt_rect (fm_options this) of
       Some g \<Rightarrow> g p pg
     | None \<Rightarrow>
         (if isNodeSelection (selection (state (view (page_editor pg)))) then
            (case nodeDOM pg (range_from (props_range p)) of
               Some b \<Rightarrow> b
             | None \<Rightarrow> posToDOMRect pg (range_from (props_range p)) (range_to (props_range p)))
          else posToDOMRect pg (range_from (props_range p)) (range_to (props_range p))))"
  by (rule ext) (rule createRect_eq)

text \<open>An update that is not skipped, in terms of the context and the anchor of the view.\<close>

lemma update_not_skipped:
  assumes "\<not> composing v"
    and "oldState = None \<or>
      (\<exists>old. oldState = Some old \<and> \<not> (doc old = doc (state v) \<and> selection old = selection (state v)))"
  shows "(opt_show (fm_options this) = None \<longrightarrow>
            FloatMenuView_update this v oldState
              = this\<lparr>fm_popover := (fm_popover this)\<lparr>visible := False\<rparr>,
                     calls := calls this @ [PopoverHide]\<rparr>)
    \<and> (\<forall>f. opt_show (fm_options this) = Some f \<and> \<not> f (createProps this) \<longrightarrow>
            FloatMenuView_update this v oldState
              = this\<lparr>fm_popover := (fm_popover this)\<lparr>visible := False\<rparr>,
                     calls := calls this @ [ShowPredicate (createProps this), PopoverHide]\<rparr>)
    \<and> (\<forall>f. opt_show (fm_options this) = Some f \<and> f (createProps this) \<longrightarrow>
            FloatMenuView_update this v oldState
              = this\<lparr>fm_popover := (fm_popover this)
                        \<lparr>visible := True,
                         getReferenceClientRect := Some (createRect this (createProps this))\<rparr>,
                     calls := calls this @ [ShowPredicate (createProps this)]
                        @ (case onUpdate (fm_options this) of
                             None \<Rightarrow> []
                           | Some cb \<Rightarrow> [OnUpdate cb (createProps this) (fm_element this)])
                        @ [PopoverSetProps, PopoverShow]\<rparr>)"
  using assms
  by (auto simp: FloatMenuView_update_def call_show_def call_onUpdate_def FloatMenuView_hide_def
      FloatMenuView_show_def setProps_def Let_def split: option.splits)

text \<open>
  C4: in an update that is not skipped, the context is the range from the least start to the
  greatest end of the ranges of the editor's selection, together with the editor. When no
  predicate is configured the popover is hidden and nothing else is called; when the
  predicate returns false on the context it has been called once, the popover is hidden, and
  neither the update callback nor the engine's show is called; when the predicate returns
  true on the context, the update callback, if there is one, is called with the context and
  the element, the popover takes a new anchor, and the popover is shown, in this order. The
  new anchor is the anchor function of the options applied to the context when the options
  have one; otherwise it is, for a node selection, the bounding rectangle of the node at the
  start of the range when there is a node, and else the rectangle of the text of the range.
\<close>

theorem update_visibility:
  assumes "\<not> composing v"
    and "oldState = None \<or>
      (\<exists>old. oldState = Some old \<and> \<not> (doc old = doc (state v) \<and> selection old = selection (state v)))"
  shows
   "let rs = ranges (selection (state (view (fm_editor this))));
        p = \<lparr>props_range =
               \<lparr>range_from = (if rs = [] then PosInf else Num (Min (set (map fst rs)))),
                range_to = (if rs = [] then NegInf else Num (Max (set (map snd rs))))\<rparr>,
             props_editor = fm_editor this\<rparr>;
        anchor = (\<lambda>pg. case opt_rect (fm_options this) of
                    Some g \<Rightarrow> g p pg
                  | None \<Rightarrow>
                      (if isNodeSelection (selection (state (view (page_editor pg)))) then
                         (case nodeDOM pg (range_from (props_range p)) of
                            Some b \<Rightarrow> b
                          | None \<Rightarrow> posToDOMRect pg (range_from (props_range p))
                                      (range_to (props_range p)))
                       else posToDOMRect pg (range_from (props_range p))
                              (range_to (props_range p))))
    in (opt_show (fm_options this) = None \<longrightarrow>
            FloatMenuView_update this v oldState
              = this\<lparr>fm_popover := (fm_popover this)\<lparr>visible := False\<rparr>,
                     calls := calls this @ [PopoverHide]\<rparr>)
     \<and> (\<forall>f. opt_show (fm_options this) = Some f \<and> \<not> f p \<longrightarrow>
            FloatMenuView_update this v oldState
              = this\<lparr>fm_popover := (fm_popover this)\<lparr>visible := False\<rparr>,
                     calls := calls this @ [ShowPredicate p, PopoverHide]\<rparr>)
     \<and> (\<forall>f. opt_show (fm_options this) = Some f \<and> f p \<longrightarrow>
            FloatMenuView_update this v oldState
              = this\<lparr>fm_popover := (fm_popover this)
                        \<lparr>visible := True, getReferenceClientRect := Some anchor\<rparr>,
                     calls := calls this @ [ShowPredicate p]
                        @ (case onUpdate (fm_options this) of
                             None \<Rightarrow> []
                           | Some cb \<Rightarrow> [OnUpdate cb p (fm_element this)])
                        @ [PopoverSetProps, PopoverShow]\<rparr>)"
proof -
  have p: "\<lparr>props_range =
       \<lparr>range_from = (if ranges (selection (state (view (fm_editor this)))) = [] then PosInf
                      else Num (Min (set (map fst (ranges (selection (state (view (fm_editor this))))))))),
        range_to = (if ranges (selection (state (view (fm_editor this)))) = [] then NegInf
                    else Num (Max (set (map snd (ranges (selection (state (view (fm_editor this)))))))))\<rparr>,
       props_editor = fm_editor this\<rparr> = createProps this"
    by (simp add: createProps_eq Let_def)
  show ?thesis
    unfolding Let_def p createRect_fun [symmetric]
    by (rule update_not_skipped [OF assms])
qed

theorem update_visibility_witness:
  "\<not> composing (view (editor_selecting [(2, 4), (1, 3)] False))
   \<and> visible (fm_popover (FloatMenuView_update
        (menu_of (Some (\<lambda>p. True)) None (editor_selecting [(2, 4), (1, 3)] False))
        (view (editor_selecting [(2, 4), (1, 3)] False)) None))
   \<and> calls (FloatMenuView_update
        (menu_of (Some (\<lambda>p. True)) None (editor_selecting [(2, 4), (1, 3)] False))
        (view (editor_selecting [(2, 4), (1, 3)] False)) None)
     = [ShowPredicate \<lparr>props_range = \<lparr>range_from = Num 1, range_to = Num 4\<rparr>,
                        props_editor = editor_selecting [(2, 4), (1, 3)] False\<rparr>,
        OnUpdate ''onUpdate'' \<lparr>props_range = \<lparr>range_from = Num 1, range_to = Num 4\<rparr>,
                        props_editor = editor_selecting [(2, 4), (1, 3)] False\<rparr>
          \<lparr>classList = [''tiptap-fm'']\<rparr>,
        PopoverSetProps, PopoverShow]
   \<and> map_option (\<lambda>a. a (page_with (editor_selecting [(2, 4), (1, 3)] False)))
        (getReferenceClientRect (fm_popover (FloatMenuView_update
          (menu_of (Some (\<lambda>p. True)) None (editor_selecting [(2, 4), (1, 3)] False))
          (view (editor_selecting [(2, 4), (1, 3)] False)) None)))
     = Some (RangeRect (Num 1) (Num 4))
   \<and> map_option (\<lambda>a. a (page_with (editor_selecting [(1, 3)] True)))
        (getReferenceClientRect (fm_popover (FloatMenuView_update
          (menu_of (Some (\<lambda>p. True)) None (editor_selecting [(2, 4), (1, 3)] False))
          (view (editor_selecting [(2, 4), (1, 3)] False)) None)))
     = Some (NodeRect (Num 1))
   \<and> map_option (\<lambda>a. a (page_with (editor_selecting [(1, 3)] True)))
        (getReferenceClientRect (fm_popover (FloatMenuView_update
          (menu_of (Some (\<lambda>p. True)) (Some (\<lambda>p pg. RangeRect (range_to (props_range p)) PosInf))
             (editor_selecting [(2, 4), (1, 3)] False))
          (view (editor_selecting [(2, 4), (1, 3)] False)) None)))
     = Some (RangeRect (Num 4) PosInf)
   \<and> FloatMenuView_update
        ((menu_of (Some (\<lambda>p. range_to (props_range p) = Num 3)) None
            (editor_selecting [(2, 4), (1, 3)] False))
           \<lparr>fm_popover := \<lparr>visible = True, getReferenceClientRect = None\<rparr>\<rparr>)
        (view (editor_selecting [(2, 4), (1, 3)] False)) None
     = (menu_of (Some (\<lambda>p. range_to (props_range p) = Num 3)) None
            (editor_selecting [(2, 4), (1, 3)] False))
         \<lparr>calls := [ShowPredicate \<lparr>props_range = \<lparr>range_from = Num 1, range_to = Num 4\<rparr>,
                        props_editor = editor_selecting [(2, 4), (1, 3)] False\<rparr>, PopoverHide]\<rparr>
   \<and> FloatMenuView_update
        ((menu_of None None (editor_selecting [(2, 4), (1, 3)] False))
           \<lparr>fm_popover := \<lparr>visible = True, getReferenceClientRect = None\<rparr>\<rparr>)
        (view (editor_selecting [(2, 4), (1, 3)] False)) None
     = (menu_of None None (editor_selecting [(2, 4), (1, 3)] False))\<lparr>calls := [PopoverHide]\<rparr>"
proof -
  let ?e = "editor_selecting [(2, 4), (1, 3)] False"
  have c: "\<not> composing (view ?e)"
    by (simp add: editor_selecting_def)
  have s: "opt_show (fm_options (menu_of pred anchor e)) = pred"
    "opt_rect (fm_options (menu_of pred anchor e)) = anchor"
    "onUpdate (fm_options (menu_of pred anchor e)) = Some ''onUpdate''"
    "fm_element (menu_of pred anchor e) = \<lparr>classList = [''tiptap-fm'']\<rparr>"
    "fm_editor (menu_of pred anchor e) = e"
    "calls (menu_of pred anchor e) = []" for pred anchor e
    by (simp_all add: menu_of_def)
  have r: "ranges (selection (state (view ?e))) = [(2, 4), (1, 3)]"
    by (simp add: editor_selecting_def)
  have pg: "isNodeSelection (selection (state (view (page_editor (page_with (editor_selecting rs b)))))) = b"
    "nodeDOM (page_with e) = (\<lambda>pos. Some (NodeRect pos))"
    "posToDOMRect (page_with e) = RangeRect" for rs b e
    by (simp_all add: page_with_def editor_selecting_def)
  have h: "(menu_of pred anchor e)
              \<lparr>fm_popover := \<lparr>visible = False, getReferenceClientRect = None\<rparr>, calls := cs\<rparr>
           = (menu_of pred anchor e)\<lparr>calls := cs\<rparr>" for pred anchor e cs
    by (simp add: menu_of_def)
  show ?thesis
    using c
      update_visibility [where v = "view ?e" and oldState = None
        and this = "menu_of (Some (\<lambda>p. True)) None ?e", OF c]
      update_visibility [where v = "view ?e" and oldState = None
        and this = "menu_of (Some (\<lambda>p. True)) (Some (\<lambda>p pg. RangeRect (range_to (props_range p)) PosInf)) ?e", OF c]
      update_visibility [where v = "view ?e" and oldState = None
        and this = "(menu_of (Some (\<lambda>p. range_to (props_range p) = Num 3)) None ?e)
           \<lparr>fm_popover := \<lparr>visible = True, getReferenceClientRect = None\<rparr>\<rparr>", OF c]
      update_visibility [where v = "view ?e" and oldState = None
        and this = "(menu_of None None ?e)
           \<lparr>fm_popover := \<lparr>visible = True, getReferenceClientRect = None\<rparr>\<rparr>", OF c]
    by (simp add: Let_def s r pg h cong: if_cong option.case_cong)
qed

text \<open>
  C10: when update is called without an old state and the view is not composing, the update
  is never skipped, whatever the document and the selection are and whatever calls came
  before: a configured predicate is evaluated on the context, as the first thing the update
  does; without a predicate the visibility test counts as false and the popover is hidden;
  in both cases the update makes a call.
\<close>

theorem update_without_old_state:
  assumes "\<not> composing v"
  shows "(\<forall>f. opt_show (fm_options this) = Some f \<longrightarrow>
           (\<exists>rest. calls (FloatMenuView_update this v None)
                      = calls this @ ShowPredicate (createProps this) # rest))
    \<and> (opt_show (fm_options this) = None \<longrightarrow>
           FloatMenuView_update this v None = FloatMenuView_hide this)
    \<and> calls (FloatMenuView_update this v None) \<noteq> calls this"
  using assms
  by (auto simp: FloatMenuView_update_def call_show_def call_onUpdate_def FloatMenuView_hide_def
      FloatMenuView_show_def setProps_def Let_def split: option.splits)

text \<open>Two updates in a row on the same state, neither with an old state: the predicate is evaluated in both.\<close>

theorem update_without_old_state_witness:
  "\<not> composing (view (editor_with True []))
   \<and> calls (FloatMenuView_update
        (FloatMenuView_update (menu_with (Some (\<lambda>p. False)) (editor_with True []))
           (view (editor_with True [])) None)
        (view (editor_with True [])) None)
     = [ShowPredicate \<lparr>props_range = \<lparr>range_from = Num 1, range_to = Num 4\<rparr>,
                        props_editor = editor_with True []\<rparr>, PopoverHide,
        ShowPredicate \<lparr>props_range = \<lparr>range_from = Num 1, range_to = Num 4\<rparr>,
                        props_editor = editor_with True []\<rparr>, PopoverHide]"
proof -
  let ?e = "editor_with True []"
  let ?m = "menu_with (Some (\<lambda>p. False)) ?e"
  let ?p = "\<lparr>props_range = \<lparr>range_from = Num 1, range_to = Num 4\<rparr>, props_editor = ?e\<rparr>"
  have c: "\<not> composing (view ?e)"
    by (simp add: editor_with_def)
  have u: "FloatMenuView_update ?m (view ?e) None = ?m\<lparr>calls := [ShowPredicate ?p, PopoverHide]\<rparr>"
    by (simp add: FloatMenuView_update_def call_show_def FloatMenuView_hide_def Let_def
        createProps_def menu_with_def editor_with_def Math_min_def Math_max_def)
  have p: "createProps (?m\<lparr>calls := cs\<rparr>) = ?p" for cs
    by (simp add: createProps_def menu_with_def editor_with_def Math_min_def Math_max_def)
  have o: "opt_show (fm_options ?m) = Some (\<lambda>p. False)"
    by (simp add: menu_with_def)
  obtain rest where r:
    "calls (FloatMenuView_update (?m\<lparr>calls := [ShowPredicate ?p, PopoverHide]\<rparr>) (view ?e) None)
      = [ShowPredicate ?p, PopoverHide] @ ShowPredicate ?p # rest"
    using update_without_old_state [OF c, of "?m\<lparr>calls := [ShowPredicate ?p, PopoverHide]\<rparr>"]
    by (auto simp: o p)
  have "calls (FloatMenuView_update (?m\<lparr>calls := [ShowPredicate ?p, PopoverHide]\<rparr>) (view ?e) None)
      = [ShowPredicate ?p, PopoverHide, ShowPredicate ?p, PopoverHide]"
    using c by (simp add: FloatMenuView_update_def call_show_def FloatMenuView_hide_def Let_def p o)
  then show ?thesis
    using c r by (simp add: u)
qed

end
